theory Spec2Isabelle
  imports Main "HOL-Library.Word" "HOL-Library.Tree" "HOL-Library.Sublist"
begin

unbundle bit_operations_syntax

section \<open>The introspection interface\<close>

text \<open>
  The dumper reads the guest through libvmi. The library is not part of the repository, so
  its primitives are the fields of a record, one instance of which stands for the guest at
  the moment of the dump (the vCPU is paused inside the trap callback).

  \<^item> \<open>read_64\<close> is an eight-byte read at a guest-virtual address in the address space of a
    process (pid 0 is the kernel). \<open>None\<close> is \<open>VMI_FAILURE\<close>; the caller's output variable is
    then not written and keeps the value it was initialised with (the fields read are
    aligned and lie within one page, so no part of them is copied when the read fails). On
    the 64-bit guests the tool supports, \<open>vmi_read_addr_va\<close> and \<open>vmi_read_64_va\<close> are both
    this read.
  \<^item> \<open>readable\<close> gives the bytes that can be read consecutively from an address, up to the
    first page that cannot be read. A read of \<open>count\<close> bytes delivers the first \<open>count\<close> of
    them, and reports their number through its \<open>bytes_read\<close> argument on every path.
  \<^item> \<open>read_unicode_str\<close> is \<open>vmi_read_unicode_str_va\<close>; \<open>None\<close> is the \<open>NULL\<close> result.
  \<^item> \<open>convert_str_encoding\<close> gives what \<open>vmi_convert_str_encoding\<close> leaves in its output
    argument.
  \<^item> \<open>find_eprocess_pgd\<close>, \<open>get_eprocess_vadroot\<close> and \<open>current_find_segment\<close> are the
    helpers \<open>windows_find_eprocess_pgd\<close>, \<open>vmi_get_eprocess_vadroot\<close> and
    \<open>vmi_current_find_segment\<close>, whose code is outside the two files studied here.
\<close>

type_synonym addr_t = "64 word"
type_synonym reg_t = "64 word"
type_synonym size_t = "64 word"
type_synonym vmi_pid_t = "32 word"
type_synonym byte = "8 word"
type_synonym vadtype_t = "32 word"

record unicode_string_t =
  length_us :: size_t
  contents :: "byte list option"
  encoding :: "string option"

text \<open>The value of \<open>(const unicode_string_t) {0}\<close>.\<close>

definition zero_unicode_string :: unicode_string_t where
  "zero_unicode_string = \<lparr>length_us = 0, contents = None, encoding = None\<rparr>"

record mem_seg_t =
  vma_base_va :: addr_t
  vma_size :: size_t

text \<open>The fields of \<open>vmi_event_t\<close> that are read: \<open>mem_event.gla\<close>, \<open>x86_regs->rip\<close>, \<open>x86_regs->cr3\<close>.\<close>

record vmi_event_t =
  ev_gla :: addr_t
  ev_rip :: reg_t
  ev_cr3 :: reg_t

record vmi_instance_t =
  read_64 :: "vmi_pid_t \<Rightarrow> addr_t \<Rightarrow> 64 word option"
  readable :: "vmi_pid_t \<Rightarrow> addr_t \<Rightarrow> byte list"
  read_unicode_str :: "vmi_pid_t \<Rightarrow> addr_t \<Rightarrow> unicode_string_t option"
  convert_str_encoding :: "unicode_string_t \<Rightarrow> string \<Rightarrow> unicode_string_t"
  find_eprocess_pgd :: "reg_t \<Rightarrow> addr_t"
  get_eprocess_vadroot :: "addr_t \<Rightarrow> addr_t"
  current_find_segment :: "vmi_event_t \<Rightarrow> addr_t \<Rightarrow> mem_seg_t"

definition vmi_read_addr_va :: "vmi_instance_t \<Rightarrow> addr_t \<Rightarrow> vmi_pid_t \<Rightarrow> addr_t option" where
  "vmi_read_addr_va vmi vaddr pid = read_64 vmi pid vaddr"

definition vmi_read_64_va :: "vmi_instance_t \<Rightarrow> addr_t \<Rightarrow> vmi_pid_t \<Rightarrow> 64 word option" where
  "vmi_read_64_va vmi vaddr pid = read_64 vmi pid vaddr"

definition vmi_read_va :: "vmi_instance_t \<Rightarrow> addr_t \<Rightarrow> vmi_pid_t \<Rightarrow> size_t \<Rightarrow> byte list" where
  "vmi_read_va vmi vaddr pid count = take (unat count) (readable vmi pid vaddr)"

definition vmi_read_unicode_str_va ::
  "vmi_instance_t \<Rightarrow> addr_t \<Rightarrow> vmi_pid_t \<Rightarrow> unicode_string_t option" where
  "vmi_read_unicode_str_va vmi vaddr pid = read_unicode_str vmi pid vaddr"

definition vmi_convert_str_encoding ::
  "vmi_instance_t \<Rightarrow> unicode_string_t \<Rightarrow> string \<Rightarrow> unicode_string_t" where
  "vmi_convert_str_encoding vmi fn_ustr enc = convert_str_encoding vmi fn_ustr enc"

text \<open>
  The global \<open>process_vmi_windows_rekall\<close>: the offsets and bit ranges taken from the
  rekall profile. Its declaration is not in the two files; the fields are the ones they use.
\<close>

record windows_rekall =
  mmvad_leftchild :: addr_t
  mmvad_rightchild :: addr_t
  mmvad_startingvpn :: addr_t
  mmvad_endingvpn :: addr_t
  mmvad_flags :: addr_t
  mmvad_controlarea :: addr_t
  controlarea_fileobject :: addr_t
  fileobject_filename :: addr_t
  flags_vadtype_start :: "64 word"
  flags_vadtype_end :: "64 word"
  flags_isprivate_start :: "64 word"
  flags_isprivate_end :: "64 word"
  flags_protection_start :: "64 word"
  flags_protection_end :: "64 word"

section \<open>The dump job\<close>

text \<open>
  \<open>vad_seg_t\<close> and \<open>dump_layer_t\<close> are declared in \<open>dump.h\<close>; the fields are the ones the
  dumper assigns. The field \<open>size\<close> is called \<open>size_seg\<close> here. \<open>buf\<close> is the allocated
  buffer: \<open>length (buf s)\<close> is its allocated length. \<open>segments\<close> is the array of
  \<open>SEG_COUNT_MAX\<close> pointers, a slot being \<open>None\<close> until a segment is stored in it.
\<close>

record vad_seg_t =
  base_va :: addr_t
  size_seg :: size_t
  va_size :: size_t
  buf :: "byte list"
  filename :: unicode_string_t
  vadtype :: vadtype_t
  isprivate :: byte
  protection :: byte

record dump_layer_t =
  pid :: vmi_pid_t
  rip :: reg_t
  segment_count :: nat
  segments :: "vad_seg_t option list"

text \<open>
  What the program does to the outside is kept as a trace, in the order of the calls:
  lines printed (the format string and its arguments), and calls of functions of the other
  modules with the values they are given. For \<open>add_to_dump_queue\<close> the buffer is given by its
  bytes that the read has written, the first \<open>dump_size\<close> ones.
\<close>

datatype effect =
    Fprintf_stderr string "64 word list"
  | Printf string "64 word list"
  | Add_to_dump_queue "byte list" size_t vmi_pid_t reg_t addr_t
  | Queue_vads_to_dump dump_layer_t
  | Mkdir string
  | Queue_and_wait_for_shell_cmd string string
  | Read_json_file string
  | Write_file string "(string \<times> string) list"

text \<open>
  Two things the C code can do have no defined result: a store past the end of the
  \<open>segments\<close> array, and a shift of a 64-bit value by 64 or more.
\<close>

datatype fault = OutOfBounds | UndefinedShift

section \<open>The VAD walker\<close>

text \<open>
  \<open>extract_field_value\<close>: \<open>packed >>= start; mask = (1ULL << (end - start + 1)) - 1;
  packed &= mask\<close>. Both shift counts are 64-bit unsigned values; the width
  \<open>end - start + 1\<close> wraps around. \<open>mask\<close> is a signed 64-bit variable: for a width below 64
  the value is at most \<open>2^63 - 1\<close> and the conversions there and back keep it.
\<close>

definition extract_field_value :: "64 word \<Rightarrow> 64 word \<Rightarrow> 64 word \<Rightarrow> 64 word option" where
  "extract_field_value packed start end' =
     (if 64 \<le> unat start then None
      else let packed1 = drop_bit (unat start) packed in
        if 64 \<le> unat (end' - start + 1) then None
        else let mask = push_bit (unat (end' - start + 1)) (1 :: 64 word) - 1
             in Some (packed1 AND mask))"

text \<open>The value of a local variable initialised to 0 after a read whose status is not tested.\<close>

definition read_or_zero :: "64 word option \<Rightarrow> 64 word" where
  "read_or_zero r = (case r of None \<Rightarrow> 0 | Some v \<Rightarrow> v)"

definition get_node_vadtype :: "vmi_instance_t \<Rightarrow> windows_rekall \<Rightarrow> addr_t \<Rightarrow> vadtype_t option" where
  "get_node_vadtype vmi rk node =
     (let start = flags_vadtype_start rk;
          end' = flags_vadtype_end rk;
          flags = read_or_zero (vmi_read_64_va vmi (node + mmvad_flags rk) 0)
      in map_option ucast (extract_field_value flags start end'))"

definition get_node_isprivate :: "vmi_instance_t \<Rightarrow> windows_rekall \<Rightarrow> addr_t \<Rightarrow> byte option" where
  "get_node_isprivate vmi rk node =
     (let start = flags_isprivate_start rk;
          end' = flags_isprivate_end rk;
          flags = read_or_zero (vmi_read_64_va vmi (node + mmvad_flags rk) 0)
      in map_option ucast (extract_field_value flags start end'))"

definition get_node_protection :: "vmi_instance_t \<Rightarrow> windows_rekall \<Rightarrow> addr_t \<Rightarrow> byte option" where
  "get_node_protection vmi rk node =
     (let start = flags_protection_start rk;
          end' = flags_protection_end rk;
          flags = read_or_zero (vmi_read_64_va vmi (node + mmvad_flags rk) 0)
      in map_option ucast (extract_field_value flags start end'))"

text \<open>\<open>get_node_filename\<close> takes the value of \<open>*fn_utf8\<close> and returns its value afterwards.\<close>

definition get_node_filename ::
  "vmi_instance_t \<Rightarrow> windows_rekall \<Rightarrow> addr_t \<Rightarrow> unicode_string_t \<Rightarrow> unicode_string_t" where
  "get_node_filename vmi rk node fn_utf8 =
     (let control_area = read_or_zero (vmi_read_addr_va vmi (node + mmvad_controlarea rk) 0) in
      if control_area = 0 then fn_utf8 else
      let file_object =
            read_or_zero (vmi_read_addr_va vmi (control_area + controlarea_fileobject rk) 0) in
      if file_object = 0 then fn_utf8 else
      let file_object1 = file_object AND 0xFFFFFFFFFFFFFFF8;
          filename_ptr =
            read_or_zero (vmi_read_addr_va vmi (file_object1 + fileobject_filename rk) 0) in
      if filename_ptr = 0 then fn_utf8 else
      case vmi_read_unicode_str_va vmi filename_ptr 0 of
        None \<Rightarrow> fn_utf8
      | Some fn_ustr \<Rightarrow> vmi_convert_str_encoding vmi fn_ustr ''UTF-8'')"

text \<open>
  \<open>handle_node\<close> works on the dump job behind \<open>data\<close> and on the trace. \<open>SEG_COUNT_MAX\<close> is a
  macro of \<open>dump.h\<close> and is a parameter here. The allocations are taken to succeed, as the
  function itself does: it tests none of them.
\<close>

definition handle_node ::
  "nat \<Rightarrow> windows_rekall \<Rightarrow> vmi_instance_t \<Rightarrow> addr_t \<Rightarrow> dump_layer_t \<times> effect list
     \<Rightarrow> fault + dump_layer_t \<times> effect list" where
  "handle_node SEG_COUNT_MAX rk vmi node st =
     (case st of (dump, tr) \<Rightarrow>
      if segment_count dump \<ge> SEG_COUNT_MAX
      then Inr (dump, tr @ [Fprintf_stderr ''handle_node: skipping VAD, SEG_COUNT_MAX reached.\<newline>'' []])
      else
      (case vmi_read_addr_va vmi (node + mmvad_startingvpn rk) 0 of
        None \<Rightarrow> Inr (dump, tr)
      | Some start0 \<Rightarrow>
      let start = push_bit 12 start0 in
      (case vmi_read_addr_va vmi (node + mmvad_endingvpn rk) 0 of
        None \<Rightarrow> Inr (dump, tr)
      | Some end0 \<Rightarrow>
      let end' = push_bit 12 end0 in
      if start = 0 \<or> end' = 0 then Inr (dump, tr)
      else
      let base = start;
          size' = end' - start in
      if length (segments dump) \<le> segment_count dump then Inl OutOfBounds
      else
      let bytes = vmi_read_va vmi base (pid dump) size';
          read_size = (word_of_nat (length bytes) :: size_t);
          fn = get_node_filename vmi rk node zero_unicode_string in
      (case get_node_vadtype vmi rk node of
        None \<Rightarrow> Inl UndefinedShift
      | Some vt \<Rightarrow>
      (case get_node_isprivate vmi rk node of
        None \<Rightarrow> Inl UndefinedShift
      | Some ip \<Rightarrow>
      (case get_node_protection vmi rk node of
        None \<Rightarrow> Inl UndefinedShift
      | Some pr \<Rightarrow>
      let seg = \<lparr>base_va = base,
                 size_seg = (if read_size < size' then read_size else size'),
                 va_size = size',
                 buf = bytes,
                 filename = fn,
                 vadtype = vt,
                 isprivate = ip,
                 protection = pr\<rparr>
      in Inr (dump\<lparr>segments := list_update (segments dump) (segment_count dump) (Some seg),
                    segment_count := segment_count dump + 1\<rparr>, tr)))))))"

text \<open>
  \<open>vad_iterator\<close> follows pointers read from the guest, and on a guest whose pointers form a
  cycle it does not return: the result \<open>None\<close>. \<open>func\<close> is the visitor; a fault in it ends
  the walk.
\<close>

partial_function (option) vad_iterator ::
  "vmi_instance_t \<Rightarrow> windows_rekall \<Rightarrow> addr_t
     \<Rightarrow> (vmi_instance_t \<Rightarrow> addr_t \<Rightarrow> 'd \<times> effect list \<Rightarrow> fault + 'd \<times> effect list)
     \<Rightarrow> 'd \<times> effect list \<Rightarrow> (fault + 'd \<times> effect list) option" where
  "vad_iterator vmi rk node func st =
     (case st of (data, tr) \<Rightarrow>
      let (left, tr1) =
            (case vmi_read_addr_va vmi (node + mmvad_leftchild rk) 0 of
               None \<Rightarrow> (0, tr @ [Fprintf_stderr ''vad_iterator: Left node could not be read\<newline>'' []])
             | Some v \<Rightarrow> (v, tr))
      in
      Option.bind (if left \<noteq> 0 then vad_iterator vmi rk left func (data, tr1)
                   else Some (Inr (data, tr1)))
        (\<lambda>r1. case r1 of
           Inl f \<Rightarrow> Some (Inl f)
         | Inr st1 \<Rightarrow>
             (case func vmi node st1 of
                Inl f \<Rightarrow> Some (Inl f)
              | Inr (data2, tr2) \<Rightarrow>
                  let (right, tr3) =
                        (case vmi_read_addr_va vmi (node + mmvad_rightchild rk) 0 of
                           None \<Rightarrow> (0, tr2 @ [Fprintf_stderr ''vad_iterator: Right node could not be read\<newline>'' []])
                         | Some v \<Rightarrow> (v, tr2))
                  in
                  if right \<noteq> 0 then vad_iterator vmi rk right func (data2, tr3)
                  else Some (Inr (data2, tr3)))))"

declare vad_iterator.simps [code]


section \<open>The single-segment dump\<close>

text \<open>
  \<open>process_layer\<close> has the same text in both files. \<open>malloc_ok\<close> says whether an allocation of
  a given size succeeds; \<open>page_cat\<close> is not used. \<open>dump_size\<close> has no initial value and is
  written by the read.
\<close>

definition process_layer ::
  "vmi_instance_t \<Rightarrow> (size_t \<Rightarrow> bool) \<Rightarrow> vmi_event_t \<Rightarrow> vmi_pid_t \<Rightarrow> 'c \<Rightarrow> effect list
     \<Rightarrow> effect list" where
  "process_layer vmi malloc_ok event pid' page_cat tr =
     (let vma = current_find_segment vmi event (ev_gla event) in
      if vma_size vma = 0
      then tr @ [Fprintf_stderr
                   ''WARNING: Unpack - Could not find memory segment for virtual address 0x%lx\<newline>''
                   [ev_gla event]]
      else if \<not> malloc_ok (vma_size vma)
      then tr @ [Fprintf_stderr ''ERROR: Unpack - Failed to malloc buffer to dump W2X event\<newline>'' []]
      else
      let buffer = vmi_read_va vmi (vma_base_va vma) pid' (vma_size vma);
          dump_size = (word_of_nat (length buffer) :: size_t)
      in tr @ [Printf ''Dumping section: base_va: %p, size: %zu\<newline>'' [vma_base_va vma, vma_size vma],
               Add_to_dump_queue buffer dump_size pid' (ev_rip event) (vma_base_va vma),
               Printf ''Done queueing dump: base_va: %p, size: %zu\<newline>''
                 [vma_base_va vma, vma_size vma]])"

section \<open>The volatility callback\<close>

text \<open>
  The globals of \<open>main.c\<close> and the host the tool runs on: the three configuration strings,
  the page size \<open>sysconf\<close> reports, and the JSON documents the parser finds in the files that
  volatility has written (a document is the list of the members of its root object).
\<close>

record host =
  domain_name :: string
  vol_profile :: string
  output_dir :: string
  page_size :: nat
  json_files :: "string \<Rightarrow> (string \<times> string) list option"

definition PATH_MAX :: nat where
  "PATH_MAX = 4096"

text \<open>\<open>snprintf\<close> with a buffer of \<open>n\<close> bytes keeps the first \<open>n - 1\<close> characters of the text.\<close>

definition snprintf :: "nat \<Rightarrow> string \<Rightarrow> string" where
  "snprintf n s = take (n - 1) s"

fun dec_nat :: "nat \<Rightarrow> string" where
  "dec_nat n = (if n < 10 then [''0123456789'' ! n]
                else dec_nat (n div 10) @ [''0123456789'' ! (n mod 10)])"

fun hex_nat :: "nat \<Rightarrow> string" where
  "hex_nat n = (if n < 16 then [''0123456789abcdef'' ! n]
                else hex_nat (n div 16) @ [''0123456789abcdef'' ! (n mod 16)])"

text \<open>The conversions \<open>%ld\<close>, \<open>%04d\<close> and \<open>%p\<close>.\<close>

definition fmt_ld :: "int \<Rightarrow> string" where
  "fmt_ld i = (if i < 0 then ''-'' @ dec_nat (nat (- i)) else dec_nat (nat i))"

definition fmt_04d :: "int \<Rightarrow> string" where
  "fmt_04d i =
     (if i < 0
      then let ds = dec_nat (nat (- i)) in ''-'' @ replicate (3 - length ds) (CHR ''0'') @ ds
      else let ds = dec_nat (nat i) in replicate (4 - length ds) (CHR ''0'') @ ds)"

definition fmt_p :: "64 word \<Rightarrow> string" where
  "fmt_p x = (if x = 0 then ''(nil)'' else ''0x'' @ hex_nat (unat x))"

text \<open>
  The three helpers of the callback, each given the trace and returning it with the calls
  it makes. Their return codes are dropped by the callback and are not part of the model.
  \<open>dump_count\<close> is an \<open>int\<close>, read as a signed 32-bit value.
\<close>

definition volatility_vaddump ::
  "host \<Rightarrow> vmi_pid_t \<Rightarrow> string \<Rightarrow> 32 word \<Rightarrow> effect list \<Rightarrow> effect list" where
  "volatility_vaddump h pid' cmd_prefix dump_count tr =
     (let cmd_max = page_size h;
          filepath = snprintf (PATH_MAX - 1) (output_dir h @ ''/'' @ fmt_04d (sint dump_count));
          cmd = snprintf (cmd_max - 1)
                  (cmd_prefix @ ''volatility -l vmi://'' @ domain_name h @ '' --profile=''
                   @ vol_profile h @ '' vaddump -D '' @ filepath @ '' 2>&1 -p ''
                   @ fmt_ld (sint pid'));
          filepath1 = snprintf (PATH_MAX - 1)
                  (output_dir h @ ''/vaddump_output.'' @ fmt_04d (sint dump_count) @ ''.''
                   @ fmt_ld (sint pid'))
      in tr @ [Mkdir filepath, Queue_and_wait_for_shell_cmd cmd filepath1])"

definition volatility_vadinfo ::
  "host \<Rightarrow> vmi_pid_t \<Rightarrow> string \<Rightarrow> 32 word \<Rightarrow> effect list \<Rightarrow> effect list" where
  "volatility_vadinfo h pid' cmd_prefix dump_count tr =
     (let cmd_max = page_size h;
          filepath = snprintf (PATH_MAX - 1)
                  (output_dir h @ ''/vadinfo.'' @ fmt_04d (sint dump_count) @ ''.''
                   @ fmt_ld (sint pid') @ ''.json'');
          cmd = snprintf (cmd_max - 1)
                  (cmd_prefix @ ''volatility -l vmi://'' @ domain_name h @ '' --profile=''
                   @ vol_profile h @ ''  vadinfo --output=json --output-file='' @ filepath
                   @ '' 2>&1 -p '' @ fmt_ld (sint pid'));
          filepath1 = snprintf (PATH_MAX - 1)
                  (output_dir h @ ''/vadinfo_output.'' @ fmt_04d (sint dump_count) @ ''.''
                   @ fmt_ld (sint pid'))
      in tr @ [Queue_and_wait_for_shell_cmd cmd filepath1])"

definition json_object_set_string_member ::
  "(string \<times> string) list \<Rightarrow> string \<Rightarrow> string \<Rightarrow> (string \<times> string) list" where
  "json_object_set_string_member obj k v =
     (if k \<in> fst ` set obj then map (\<lambda>(k', v'). if k' = k then (k', v) else (k', v')) obj
      else obj @ [(k, v)])"

definition add_rip_to_json ::
  "host \<Rightarrow> vmi_pid_t \<Rightarrow> 32 word \<Rightarrow> reg_t \<Rightarrow> effect list \<Rightarrow> effect list" where
  "add_rip_to_json h pid' dump_count rip' tr =
     (let filepath = snprintf (PATH_MAX - 1)
                  (output_dir h @ ''/vadinfo.'' @ fmt_04d (sint dump_count) @ ''.''
                   @ fmt_ld (sint pid') @ ''.json'')
      in case json_files h filepath of
           None \<Rightarrow> tr @ [Read_json_file filepath]
         | Some root \<Rightarrow>
             let rip_buf = snprintf 32 (fmt_p rip')
             in tr @ [Read_json_file filepath,
                      Write_file filepath (json_object_set_string_member root ''rip'' rip_buf)])"

text \<open>
  The state of the output module is the global \<open>dump_count\<close>, 0 when the program starts, and
  the trace. \<open>dump_count++\<close> is the addition of 32-bit words.
\<close>

definition dump_count_init :: "32 word" where
  "dump_count_init = 0"

definition volatility_callback_vaddump ::
  "host \<Rightarrow> vmi_event_t \<Rightarrow> vmi_pid_t \<Rightarrow> 'c \<Rightarrow> 32 word \<times> effect list \<Rightarrow> 32 word \<times> effect list" where
  "volatility_callback_vaddump h event pid' page_cat st =
     (case st of (dump_count, tr) \<Rightarrow>
      let cmd_prefix = [];
          tr1 = volatility_vaddump h pid' cmd_prefix dump_count tr;
          tr2 = volatility_vadinfo h pid' cmd_prefix dump_count tr1;
          tr3 = add_rip_to_json h pid' dump_count (ev_rip event) tr2
      in (dump_count + 1, tr3))"

section \<open>Notions used to state the properties\<close>

subsection \<open>VAD trees in guest memory\<close>

text \<open>
  \<open>child_ptr\<close> is the value of \<open>left\<close> or \<open>right\<close> in \<open>vad_iterator\<close> after the read.
  \<open>vad_shape vmi rk a t\<close> says that the nodes reached from address \<open>a\<close> through these
  values form the finite tree \<open>t\<close> of node addresses; a child that is null or cannot be read
  is a leaf.
\<close>

definition child_ptr :: "vmi_instance_t \<Rightarrow> addr_t \<Rightarrow> addr_t" where
  "child_ptr vmi a = read_or_zero (vmi_read_addr_va vmi a 0)"

fun vad_shape :: "vmi_instance_t \<Rightarrow> windows_rekall \<Rightarrow> addr_t \<Rightarrow> addr_t tree \<Rightarrow> bool" where
  "vad_shape vmi rk a Leaf = (a = 0)"
| "vad_shape vmi rk a (Node l n r) =
     (a \<noteq> 0 \<and> n = a \<and>
      vad_shape vmi rk (child_ptr vmi (a + mmvad_leftchild rk)) l \<and>
      vad_shape vmi rk (child_ptr vmi (a + mmvad_rightchild rk)) r)"

text \<open>
  The in-order walk as a list of steps: a visit of a node, or a line on \<open>stderr\<close>.
  \<open>run_steps\<close> performs them, \<open>visits\<close> keeps the nodes.
\<close>

datatype step = Visit addr_t | Warn string

fun trav :: "vmi_instance_t \<Rightarrow> windows_rekall \<Rightarrow> addr_t tree \<Rightarrow> step list" where
  "trav vmi rk Leaf = []"
| "trav vmi rk (Node l n r) =
     (if vmi_read_addr_va vmi (n + mmvad_leftchild rk) 0 = None
      then [Warn ''vad_iterator: Left node could not be read\<newline>''] else [])
     @ trav vmi rk l @ [Visit n]
     @ (if vmi_read_addr_va vmi (n + mmvad_rightchild rk) 0 = None
        then [Warn ''vad_iterator: Right node could not be read\<newline>''] else [])
     @ trav vmi rk r"

fun run_steps ::
  "vmi_instance_t
     \<Rightarrow> (vmi_instance_t \<Rightarrow> addr_t \<Rightarrow> 'd \<times> effect list \<Rightarrow> fault + 'd \<times> effect list)
     \<Rightarrow> step list \<Rightarrow> 'd \<times> effect list \<Rightarrow> fault + 'd \<times> effect list" where
  "run_steps vmi func [] st = Inr st"
| "run_steps vmi func (Visit n # ss) st =
     (case func vmi n st of Inl f \<Rightarrow> Inl f | Inr st1 \<Rightarrow> run_steps vmi func ss st1)"
| "run_steps vmi func (Warn m # ss) st =
     run_steps vmi func ss (fst st, snd st @ [Fprintf_stderr m []])"

fun visits :: "step list \<Rightarrow> addr_t list" where
  "visits [] = []"
| "visits (Visit n # ss) = n # visits ss"
| "visits (Warn m # ss) = visits ss"

text \<open>
  The virtual addresses of a node: \<open>node_base\<close> and \<open>node_end\<close> are its starting and ending
  page numbers shifted left by 12, \<open>None\<close> when the number cannot be read. \<open>node_key\<close> is the
  base address with 0 for a number that cannot be read; it is the key of the search tree.
\<close>

definition node_base :: "vmi_instance_t \<Rightarrow> windows_rekall \<Rightarrow> addr_t \<Rightarrow> addr_t option" where
  "node_base vmi rk node =
     map_option (push_bit 12) (vmi_read_addr_va vmi (node + mmvad_startingvpn rk) 0)"

definition node_end :: "vmi_instance_t \<Rightarrow> windows_rekall \<Rightarrow> addr_t \<Rightarrow> addr_t option" where
  "node_end vmi rk node =
     map_option (push_bit 12) (vmi_read_addr_va vmi (node + mmvad_endingvpn rk) 0)"

definition node_key :: "vmi_instance_t \<Rightarrow> windows_rekall \<Rightarrow> addr_t \<Rightarrow> addr_t" where
  "node_key vmi rk node =
     push_bit 12 (read_or_zero (vmi_read_addr_va vmi (node + mmvad_startingvpn rk) 0))"


text \<open>
  The slots of the job \<open>d'\<close> filled since the job was \<open>d\<close>, and the relation between the two
  when exactly the segments \<open>segs\<close> were appended.
\<close>

definition new_segments :: "dump_layer_t \<Rightarrow> dump_layer_t \<Rightarrow> vad_seg_t option list" where
  "new_segments d d' =
     take (segment_count d' - segment_count d) (drop (segment_count d) (segments d'))"

definition grown :: "dump_layer_t \<Rightarrow> dump_layer_t \<Rightarrow> vad_seg_t list \<Rightarrow> bool" where
  "grown d d' segs \<longleftrightarrow>
     segment_count d' = segment_count d + length segs \<and>
     length (segments d') = length (segments d) \<and>
     (segs = [] \<or> segment_count d' \<le> length (segments d')) \<and>
     (\<forall>i < length segs. segments d' ! (segment_count d + i) = Some (segs ! i))"

text \<open>The job with one more segment, stored in the first free slot.\<close>

definition append_segment :: "dump_layer_t \<Rightarrow> vad_seg_t \<Rightarrow> dump_layer_t" where
  "append_segment d seg =
     d\<lparr>segments := list_update (segments d) (segment_count d) (Some seg),
       segment_count := segment_count d + 1\<rparr>"

subsection \<open>The backing file of a node\<close>

text \<open>
  The chain the specification describes: the control-area pointer, the file-object pointer
  with its low three bits masked off, the filename field, the Unicode string; \<open>None\<close> when a
  pointer of the chain is null or cannot be read, or the string cannot be read. The
  file-object pointer of the chain is the reference read from the control area without
  its tag.
\<close>

definition backing_filename ::
  "vmi_instance_t \<Rightarrow> windows_rekall \<Rightarrow> addr_t \<Rightarrow> unicode_string_t option" where
  "backing_filename vmi rk node =
     (case vmi_read_addr_va vmi (node + mmvad_controlarea rk) 0 of
        None \<Rightarrow> None
      | Some control_area \<Rightarrow>
          if control_area = 0 then None
          else (case vmi_read_addr_va vmi (control_area + controlarea_fileobject rk) 0 of
                  None \<Rightarrow> None
                | Some fast_ref \<Rightarrow>
                    let file_object = fast_ref AND NOT 7 in
                    if file_object = 0 then None
                    else (case vmi_read_addr_va vmi (file_object + fileobject_filename rk) 0 of
                            None \<Rightarrow> None
                          | Some filename_ptr \<Rightarrow>
                              if filename_ptr = 0 then None
                              else vmi_read_unicode_str_va vmi filename_ptr 0)))"

text \<open>
  The file-object reference of a node as it is read, tag included; 0 when there is no
  control area or the reference cannot be read.
\<close>

definition file_object_ref :: "vmi_instance_t \<Rightarrow> windows_rekall \<Rightarrow> addr_t \<Rightarrow> 64 word" where
  "file_object_ref vmi rk node =
     (let control_area = read_or_zero (vmi_read_addr_va vmi (node + mmvad_controlarea rk) 0)
      in if control_area = 0 then 0
         else read_or_zero (vmi_read_addr_va vmi (control_area + controlarea_fileobject rk) 0))"

subsection \<open>A run of the output module\<close>

text \<open>
  The callback invoked once for each trigger of a run, in order; a trigger is the event and
  the pid it is delivered with.
\<close>

fun dump_callbacks ::
  "host \<Rightarrow> (vmi_event_t \<times> vmi_pid_t) list \<Rightarrow> 32 word \<times> effect list \<Rightarrow> 32 word \<times> effect list" where
  "dump_callbacks h [] st = st"
| "dump_callbacks h ((event, pid') # evs) st =
     dump_callbacks h evs (volatility_callback_vaddump h event pid' () st)"

subsection \<open>A guest with five VAD nodes\<close>

text \<open>
  A profile and a guest used to evaluate the definitions. The root node is at \<open>0x2000\<close>, its
  children at \<open>0x1000\<close> and \<open>0x3000\<close>; \<open>0x800\<close> is the left child of \<open>0x1000\<close>, whose
  right child pointer cannot be read, and \<open>0x3800\<close> is the right child of \<open>0x3000\<close>, whose
  left child pointer cannot be read. Only the root has a control area; its file-object
  reference carries the tag 3. The region of \<open>0x1000\<close> is readable in full, of the region of
  the root only 100 bytes are, of the others none. At \<open>0x8000\<close> there is a node outside
  the tree whose starting page number is 0; nothing can be read at \<open>0x4000\<close>.
\<close>

definition rk0 :: windows_rekall where
  "rk0 = \<lparr>mmvad_leftchild = 0x8, mmvad_rightchild = 0x10, mmvad_startingvpn = 0x18,
          mmvad_endingvpn = 0x20, mmvad_flags = 0x28, mmvad_controlarea = 0x48,
          controlarea_fileobject = 0x40, fileobject_filename = 0x58,
          flags_vadtype_start = 0, flags_vadtype_end = 2,
          flags_isprivate_start = 15, flags_isprivate_end = 15,
          flags_protection_start = 3, flags_protection_end = 7\<rparr>"

definition kmem0 :: "(addr_t \<times> 64 word) list" where
  "kmem0 =
     [(0x2008, 0x1000), (0x2010, 0x3000), (0x2018, 0x20), (0x2020, 0x22), (0x2028, 0x8039),
      (0x2048, 0x5000), (0x5040, 0x6003), (0x6058, 0x7000),
      (0x1008, 0x800), (0x1018, 0x10), (0x1020, 0x11), (0x1028, 1),
      (0x808, 0), (0x810, 0), (0x818, 0x8), (0x820, 0x9), (0x828, 1),
      (0x3010, 0x3800), (0x3018, 0x30), (0x3020, 0x31), (0x3028, 2),
      (0x3808, 0), (0x3810, 0), (0x3818, 0x40), (0x3820, 0x41), (0x3828, 2),
      (0x8018, 0), (0x8020, 5)]"

definition ustr0 :: unicode_string_t where
  "ustr0 = \<lparr>length_us = 2, contents = Some [0x61, 0], encoding = Some ''UTF-16LE''\<rparr>"

definition vmi0 :: vmi_instance_t where
  "vmi0 =
     \<lparr>read_64 = (\<lambda>p a. if p = 0 then map_of kmem0 a else None),
      readable = (\<lambda>p a. if p = 7 \<and> a = 0x10000 then replicate 4096 0xCC
                         else if p = 7 \<and> a = 0x20000 then replicate 100 0x90 else []),
      read_unicode_str = (\<lambda>p a. if p = 0 \<and> a = 0x7000 then Some ustr0 else None),
      convert_str_encoding =
        (\<lambda>u enc. \<lparr>length_us = 1, contents = Some [0x61], encoding = Some enc\<rparr>),
      find_eprocess_pgd = (\<lambda>cr3. 0x9000),
      get_eprocess_vadroot = (\<lambda>eprocess. 0x2000),
      current_find_segment = (\<lambda>event a. \<lparr>vma_base_va = 0x20000, vma_size = 0x2000\<rparr>)\<rparr>"

definition t0 :: "addr_t tree" where
  "t0 = Node (Node (Node Leaf 0x800 Leaf) 0x1000 Leaf) 0x2000
             (Node Leaf 0x3000 (Node Leaf 0x3800 Leaf))"

text \<open>
  The same guest, except that the file-object reference of the root's control area is the
  tag 3 alone, and that the kernel address \<open>0x58\<close> can be read and holds the address of a
  string.
\<close>

definition vmi1 :: vmi_instance_t where
  "vmi1 = vmi0\<lparr>read_64 :=
            (\<lambda>p a. if p = 0 then map_of [(0x2048, 0x5000), (0x5040, 3), (0x58, 0x7000)] a
                    else None)\<rparr>"

text \<open>The segments that \<open>handle_node\<close> builds for the nodes of the tree.\<close>

definition seg_800 :: vad_seg_t where
  "seg_800 = \<lparr>base_va = 0x8000, size_seg = 0, va_size = 0x1000,
              buf = [], filename = zero_unicode_string,
              vadtype = 1, isprivate = 0, protection = 0\<rparr>"

definition seg_1000 :: vad_seg_t where
  "seg_1000 = \<lparr>base_va = 0x10000, size_seg = 0x1000, va_size = 0x1000,
               buf = replicate 4096 0xCC, filename = zero_unicode_string,
               vadtype = 1, isprivate = 0, protection = 0\<rparr>"

definition seg_2000 :: vad_seg_t where
  "seg_2000 = \<lparr>base_va = 0x20000, size_seg = 100, va_size = 0x2000,
               buf = replicate 100 0x90,
               filename = \<lparr>length_us = 1, contents = Some [0x61], encoding = Some ''UTF-8''\<rparr>,
               vadtype = 1, isprivate = 1, protection = 7\<rparr>"

definition seg_3000 :: vad_seg_t where
  "seg_3000 = \<lparr>base_va = 0x30000, size_seg = 0, va_size = 0x1000,
               buf = [], filename = zero_unicode_string,
               vadtype = 2, isprivate = 0, protection = 0\<rparr>"

definition seg_3800 :: vad_seg_t where
  "seg_3800 = \<lparr>base_va = 0x40000, size_seg = 0, va_size = 0x1000,
               buf = [], filename = zero_unicode_string,
               vadtype = 2, isprivate = 0, protection = 0\<rparr>"

definition d0 :: dump_layer_t where
  "d0 = \<lparr>pid = 7, rip = 0x401000, segment_count = 0, segments = replicate 4 None\<rparr>"

text \<open>The job \<open>d0\<close> once its four slots are filled by the walk.\<close>

definition d4 :: dump_layer_t where
  "d4 = append_segment (append_segment (append_segment (append_segment d0 seg_800) seg_1000)
          seg_2000) seg_3000"

definition ev0 :: vmi_event_t where
  "ev0 = \<lparr>ev_gla = 0x20010, ev_rip = 0x401000, ev_cr3 = 0x1aa000\<rparr>"

text \<open>A host on which volatility has written the JSON file of the first dump of pid 7.\<close>

definition h0 :: host where
  "h0 = \<lparr>domain_name = ''win7'', vol_profile = ''Win7SP1x64'', output_dir = ''/out'',
         page_size = 4096,
         json_files = (\<lambda>fn. if fn = ''/out/vadinfo.0000.7.json''
                            then Some [(''pid'', ''7'')] else None)\<rparr>"

section \<open>Properties\<close>

subsection \<open>Bit fields\<close>

lemma field_mask: "push_bit m (1::64 word) - 1 = mask m"
  by (simp add: mask_eq_exp_minus_1 push_bit_eq_mult)

lemma take_bit_field:
  assumes "n + m \<le> 64" and "take_bit m v = (v::64 word)"
  shows "take_bit m (drop_bit n (push_bit n v)) = v"
proof (rule bit_word_eqI)
  fix k assume "k < LENGTH(64)"
  have "bit v k \<Longrightarrow> k < m"
    using assms(2) by (metis bit_take_bit_iff)
  then show "bit (take_bit m (drop_bit n (push_bit n v))) k = bit v k"
    using assms(1) by (auto simp add: bit_simps)
qed

lemma field_width:
  assumes "unat s \<le> unat (e :: 64 word)" and "unat e < 64"
  shows "unat (e - s + 1) = unat e - unat s + 1"
proof -
  have "s \<le> e"
    using assms by (simp add: word_le_nat_alt)
  then have a: "unat (e - s) = unat e - unat s"
    by (rule unat_sub)
  have "unat (e - s) + unat (1 :: 64 word) < 2 ^ LENGTH(64)"
    using a assms by simp
  then have "unat (e - s + 1) = unat (e - s) + unat (1 :: 64 word)"
    by (metis unat_add_lem)
  then show ?thesis
    using a by simp
qed

text \<open>
  For a field narrower than the word, extraction gives back the value that was put in the
  field.
\<close>

lemma extract_field_value_narrow:
  assumes "unat s \<le> unat e" and "unat e < 64" and "unat e - unat s + 1 < 64"
    and "unat v < 2 ^ (unat e - unat s + 1)"
  shows "extract_field_value (push_bit (unat s) v) s e = Some v"
proof -
  let ?m = "unat e - unat s + 1"
  have w: "unat (e - s + 1) = ?m"
    using assms by (simp add: field_width)
  have tb: "take_bit ?m v = v"
    using assms(4) by (metis take_bit_nat_eq_self_iff unsigned_take_bit_eq word_eq_iff_unsigned)
  have "unat s + ?m \<le> 64"
    using assms by simp
  then have "take_bit ?m (drop_bit (unat s) (push_bit (unat s) v)) = v"
    using tb by (rule take_bit_field)
  then have r: "drop_bit (unat s) (push_bit (unat s) v) AND (push_bit (unat (e - s + 1)) 1 - 1) = v"
    by (simp only: w field_mask take_bit_eq_mask)
  have c1: "\<not> 64 \<le> unat s"
    using assms by simp
  have c2: "\<not> 64 \<le> unat (e - s + 1)"
    using assms w by simp
  show ?thesis
    unfolding extract_field_value_def Let_def by (simp only: c1 c2 if_False r)
qed

text \<open>
  C3. The round trip fails for the field that is the whole word: with start bit 0 and end
  bit 63 the mask is \<open>1ULL << 64\<close>, a shift C does not define, and the function has no
  result, whatever the packed word is.
\<close>

theorem extract_field_value_whole_word: "extract_field_value (push_bit 0 v) 0 63 = None"
  by (simp add: extract_field_value_def)

subsection \<open>The backing file\<close>

text \<open>
  Unless the file-object reference is a tag with a null pointer, \<open>get_node_filename\<close> is
  the chain: the output is what it was when the chain gives no string, and the conversion
  of the string otherwise.
\<close>

lemma get_node_filename_chain:
  assumes "file_object_ref vmi rk node AND NOT 7 = 0 \<Longrightarrow> file_object_ref vmi rk node = 0"
  shows "get_node_filename vmi rk node fn_utf8 =
           (case backing_filename vmi rk node of
              None \<Rightarrow> fn_utf8
            | Some fn_ustr \<Rightarrow> vmi_convert_str_encoding vmi fn_ustr ''UTF-8'')"
proof -
  have m: "(0xFFFFFFFFFFFFFFF8 :: 64 word) = NOT 7"
    by simp
  show ?thesis
    using assms
    unfolding get_node_filename_def backing_filename_def file_object_ref_def m
    by (auto simp add: read_or_zero_def Let_def split: option.splits)
qed

lemma get_node_filename_chain_vmi0:
  "file_object_ref vmi0 rk0 0x2000 = 0x6003"
  "backing_filename vmi0 rk0 0x2000 = Some ustr0"
  "get_node_filename vmi0 rk0 0x2000 zero_unicode_string =
     \<lparr>length_us = 1, contents = Some [0x61], encoding = Some ''UTF-8''\<rparr>"
  "backing_filename vmi0 rk0 0x1000 = None"
  "get_node_filename vmi0 rk0 0x1000 zero_unicode_string = zero_unicode_string"
  by (simp_all add: file_object_ref_def backing_filename_def get_node_filename_def
      read_or_zero_def vmi0_def rk0_def kmem0_def vmi_read_addr_va_def
      vmi_read_unicode_str_va_def vmi_convert_str_encoding_def)

text \<open>
  C9. The chain of the specification has the file-object pointer with its low three bits
  masked off, and leaves the output untouched when a pointer of the chain is zero.
  \<open>get_node_filename\<close> tests the reference for zero before it masks the tag. On the guest
  \<open>vmi1\<close> the reference is 3: the file-object pointer is null and the chain gives no
  string, but the function reads the filename field at address \<open>0 + fileobject_filename\<close>
  and sets the output.
\<close>

theorem get_node_filename_tag_only_reference:
  "file_object_ref vmi1 rk0 0x2000 = 3 \<and>
   file_object_ref vmi1 rk0 0x2000 AND NOT 7 = 0 \<and>
   backing_filename vmi1 rk0 0x2000 = None \<and>
   get_node_filename vmi1 rk0 0x2000 zero_unicode_string =
     \<lparr>length_us = 1, contents = Some [0x61], encoding = Some ''UTF-8''\<rparr> \<and>
   get_node_filename vmi1 rk0 0x2000 zero_unicode_string \<noteq> zero_unicode_string"
  by (simp add: file_object_ref_def backing_filename_def get_node_filename_def
      read_or_zero_def vmi1_def vmi0_def rk0_def vmi_read_addr_va_def
      vmi_read_unicode_str_va_def vmi_convert_str_encoding_def zero_unicode_string_def)

subsection \<open>One call of the visitor\<close>

lemma handle_node_full:
  "cap \<le> segment_count d \<Longrightarrow>
   handle_node cap rk vmi node (d, tr) =
     Inr (d, tr @ [Fprintf_stderr ''handle_node: skipping VAD, SEG_COUNT_MAX reached.\<newline>'' []])"
  by (simp add: handle_node_def)

lemma handle_node_skip:
  assumes "segment_count d < cap"
    and "node_base vmi rk node = None \<or> node_end vmi rk node = None \<or>
         node_base vmi rk node = Some 0 \<or> node_end vmi rk node = Some 0"
  shows "handle_node cap rk vmi node (d, tr) = Inr (d, tr)"
  using assms
  by (auto simp add: handle_node_def node_base_def node_end_def Let_def split: option.splits)

lemma append_segment_neq: "append_segment d seg \<noteq> d"
proof
  assume "append_segment d seg = d"
  then have "segment_count (append_segment d seg) = segment_count d"
    by simp
  then show False
    by (simp add: append_segment_def)
qed

lemma handle_node_append:
  assumes "handle_node cap rk vmi node (d, tr) = Inr (d', tr')" and "d' \<noteq> d"
  shows "\<exists>base end' vt ip pr.
           node_base vmi rk node = Some base \<and> node_end vmi rk node = Some end' \<and>
           base \<noteq> 0 \<and> end' \<noteq> 0 \<and>
           segment_count d < cap \<and> segment_count d < length (segments d) \<and> tr' = tr \<and>
           get_node_vadtype vmi rk node = Some vt \<and>
           get_node_isprivate vmi rk node = Some ip \<and>
           get_node_protection vmi rk node = Some pr \<and>
           d' = append_segment d
                  \<lparr>base_va = base,
                   size_seg =
                     (if word_of_nat (length (vmi_read_va vmi base (pid d) (end' - base)))
                           < end' - base
                      then word_of_nat (length (vmi_read_va vmi base (pid d) (end' - base)))
                      else end' - base),
                   va_size = end' - base,
                   buf = vmi_read_va vmi base (pid d) (end' - base),
                   filename = get_node_filename vmi rk node zero_unicode_string,
                   vadtype = vt, isprivate = ip, protection = pr\<rparr>"
  using assms
  by (auto simp add: handle_node_def node_base_def node_end_def append_segment_def Let_def
      split: option.splits if_splits)


lemma length_vmi_read_va: "length (vmi_read_va vmi a p n) \<le> unat n"
  by (simp add: vmi_read_va_def)

lemma unat_read_size:
  "unat (word_of_nat (length (vmi_read_va vmi a p n)) :: 64 word) = length (vmi_read_va vmi a p n)"
  using le_unat_uoi length_vmi_read_va by blast

lemma read_size_less:
  "((word_of_nat (length (vmi_read_va vmi a p n)) :: 64 word) < n) =
     (length (vmi_read_va vmi a p n) < unat n)"
  by (simp add: word_less_nat_alt unat_read_size)

text \<open>
  C8. When the starting or the ending page number of a node cannot be read, or the base or
  the end address computed from them is zero, \<open>handle_node\<close> returns with the dump job as
  it was: no segment is appended, the count and the slots are unchanged. (The only trace
  it can leave is the warning of a job that is already full.)
\<close>

theorem handle_node_leaves_job:
  assumes "node_base vmi rk node = None \<or> node_end vmi rk node = None \<or>
           node_base vmi rk node = Some 0 \<or> node_end vmi rk node = Some 0"
  shows "handle_node cap rk vmi node (d, tr) =
           Inr (d, if cap \<le> segment_count d
                   then tr @ [Fprintf_stderr
                                ''handle_node: skipping VAD, SEG_COUNT_MAX reached.\<newline>'' []]
                   else tr)"
proof (cases "cap \<le> segment_count d")
  case True
  then show ?thesis
    by (simp add: handle_node_full)
next
  case False
  then have "segment_count d < cap"
    by simp
  then show ?thesis
    using assms False by (simp add: handle_node_skip)
qed

theorem handle_node_leaves_job_witness:
  "node_base vmi0 rk0 0x4000 = None \<and> handle_node 4 rk0 vmi0 0x4000 (d0, []) = Inr (d0, []) \<and>
   node_base vmi0 rk0 0x8000 = Some 0 \<and> handle_node 4 rk0 vmi0 0x8000 (d0, []) = Inr (d0, [])"
proof -
  have a: "node_base vmi0 rk0 0x4000 = None"
    by (simp add: node_base_def vmi_read_addr_va_def vmi0_def rk0_def kmem0_def)
  have b: "node_base vmi0 rk0 0x8000 = Some 0"
    by (simp add: node_base_def vmi_read_addr_va_def vmi0_def rk0_def kmem0_def)
  have c: "\<not> 4 \<le> segment_count d0"
    by (simp add: d0_def)
  show ?thesis
    using handle_node_leaves_job [of vmi0 rk0 "0x4000" 4 d0 "[]"]
      handle_node_leaves_job [of vmi0 rk0 "0x8000" 4 d0 "[]"] a b c
    by simp
qed

text \<open>
  C4. For a segment appended by \<open>handle_node\<close>, the buffer holds the bytes the read of the
  guest returned and the recorded size is their number. It is at most the virtual extent
  \<open>end - base\<close>, and equal to it exactly when the read was not short.
\<close>

theorem handle_node_size_is_bytes_read:
  assumes "handle_node cap rk vmi node (d, tr) = Inr (d', tr')" and "d' \<noteq> d"
  shows "\<exists>seg base end'.
           d' = append_segment d seg \<and>
           node_base vmi rk node = Some base \<and> node_end vmi rk node = Some end' \<and>
           buf seg = vmi_read_va vmi base (pid d) (end' - base) \<and>
           unat (size_seg seg) = length (buf seg) \<and>
           size_seg seg \<le> end' - base \<and>
           (size_seg seg = end' - base) = (\<not> length (buf seg) < unat (end' - base))"
proof -
  from handle_node_append [OF assms] obtain base end' vt ip pr where
    nb: "node_base vmi rk node = Some base" and ne: "node_end vmi rk node = Some end'"
    and d': "d' = append_segment d
                  \<lparr>base_va = base,
                   size_seg =
                     (if word_of_nat (length (vmi_read_va vmi base (pid d) (end' - base)))
                           < end' - base
                      then word_of_nat (length (vmi_read_va vmi base (pid d) (end' - base)))
                      else end' - base),
                   va_size = end' - base,
                   buf = vmi_read_va vmi base (pid d) (end' - base),
                   filename = get_node_filename vmi rk node zero_unicode_string,
                   vadtype = vt, isprivate = ip, protection = pr\<rparr>"
    by blast
  let ?bytes = "vmi_read_va vmi base (pid d) (end' - base)"
  let ?rs = "word_of_nat (length ?bytes) :: 64 word"
  let ?sz = "if ?rs < end' - base then ?rs else end' - base"
  have len: "length ?bytes \<le> unat (end' - base)"
    by (rule length_vmi_read_va)
  have u: "unat ?sz = length ?bytes"
    using len by (auto simp add: read_size_less unat_read_size)
  have le: "?sz \<le> end' - base"
    by (simp add: word_le_nat_alt u len del: word_less_eq_iff_unsigned)
  have eq: "(?sz = end' - base) = (\<not> length ?bytes < unat (end' - base))"
    using len by (auto simp add: read_size_less word_eq_iff_unsigned[where ?'a = nat] unat_read_size)
  show ?thesis
    apply (rule exI, rule exI [of _ base], rule exI [of _ end'])
    apply (intro conjI)
          apply (rule d')
         apply (rule nb)
        apply (rule ne)
       apply simp
      apply (simp only: vad_seg_t.simps u)
     apply (simp only: vad_seg_t.simps le)
    apply (simp only: vad_seg_t.simps eq)
    done
qed

lemmas vmi0_reads =
  vmi_read_addr_va_def vmi_read_64_va_def vmi_read_va_def vmi_read_unicode_str_va_def
  vmi_convert_str_encoding_def vmi0_def rk0_def kmem0_def read_or_zero_def

lemma extract_0_2: "extract_field_value w 0 2 = Some (w AND 7)"
  by (simp add: extract_field_value_def)

lemma get_node_filename_vmi0:
  "get_node_filename vmi0 rk0 0x800 fn = fn"
  "get_node_filename vmi0 rk0 0x1000 fn = fn"
  "get_node_filename vmi0 rk0 0x3800 fn = fn"
  "get_node_filename vmi0 rk0 0x3000 fn = fn"
  "get_node_filename vmi0 rk0 0x2000 fn =
     \<lparr>length_us = 1, contents = Some [0x61], encoding = Some ''UTF-8''\<rparr>"
  by (simp_all add: get_node_filename_def vmi0_reads)

lemma get_flags_vmi0:
  "get_node_vadtype vmi0 rk0 0x1000 = Some 1"
  "get_node_isprivate vmi0 rk0 0x1000 = Some 0"
  "get_node_protection vmi0 rk0 0x1000 = Some 0"
  "get_node_vadtype vmi0 rk0 0x2000 = Some 1"
  "get_node_isprivate vmi0 rk0 0x2000 = Some 1"
  "get_node_protection vmi0 rk0 0x2000 = Some 7"
  "get_node_vadtype vmi0 rk0 0x3000 = Some 2"
  "get_node_vadtype vmi0 rk0 0x800 = Some 1"
  "get_node_isprivate vmi0 rk0 0x800 = Some 0"
  "get_node_protection vmi0 rk0 0x800 = Some 0"
  "get_node_vadtype vmi0 rk0 0x3800 = Some 2"
  "get_node_isprivate vmi0 rk0 0x3800 = Some 0"
  "get_node_protection vmi0 rk0 0x3800 = Some 0"
  "get_node_isprivate vmi0 rk0 0x3000 = Some 0"
  "get_node_protection vmi0 rk0 0x3000 = Some 0"
  by (simp_all add: get_node_vadtype_def get_node_isprivate_def get_node_protection_def
      extract_field_value_def vmi0_reads)

lemma handle_node_vmi0:
  assumes "segment_count d < cap" and "segment_count d < length (segments d)" and "pid d = 7"
  shows "handle_node cap rk0 vmi0 0x1000 (d, tr) = Inr (append_segment d seg_1000, tr)"
    and "handle_node cap rk0 vmi0 0x2000 (d, tr) = Inr (append_segment d seg_2000, tr)"
    and "handle_node cap rk0 vmi0 0x3000 (d, tr) = Inr (append_segment d seg_3000, tr)"
    and "handle_node cap rk0 vmi0 0x800 (d, tr) = Inr (append_segment d seg_800, tr)"
    and "handle_node cap rk0 vmi0 0x3800 (d, tr) = Inr (append_segment d seg_3800, tr)"
proof -
  have r: "vmi_read_addr_va vmi0 (0x1000 + mmvad_startingvpn rk0) 0 = Some 0x10"
    "vmi_read_addr_va vmi0 (0x1000 + mmvad_endingvpn rk0) 0 = Some 0x11"
    "vmi_read_addr_va vmi0 (0x2000 + mmvad_startingvpn rk0) 0 = Some 0x20"
    "vmi_read_addr_va vmi0 (0x2000 + mmvad_endingvpn rk0) 0 = Some 0x22"
    "vmi_read_addr_va vmi0 (0x3000 + mmvad_startingvpn rk0) 0 = Some 0x30"
    "vmi_read_addr_va vmi0 (0x3000 + mmvad_endingvpn rk0) 0 = Some 0x31"
    "vmi_read_addr_va vmi0 (0x800 + mmvad_startingvpn rk0) 0 = Some 0x8"
    "vmi_read_addr_va vmi0 (0x800 + mmvad_endingvpn rk0) 0 = Some 0x9"
    "vmi_read_addr_va vmi0 (0x3800 + mmvad_startingvpn rk0) 0 = Some 0x40"
    "vmi_read_addr_va vmi0 (0x3800 + mmvad_endingvpn rk0) 0 = Some 0x41"
    by (simp_all add: vmi0_reads)
  have b: "vmi_read_va vmi0 0x10000 7 0x1000 = replicate 4096 0xCC"
    "vmi_read_va vmi0 0x20000 7 0x2000 = replicate 100 0x90"
    "vmi_read_va vmi0 0x30000 7 0x1000 = []"
    "vmi_read_va vmi0 0x8000 7 0x1000 = []"
    "vmi_read_va vmi0 0x40000 7 0x1000 = []"
    by (simp_all add: vmi_read_va_def vmi0_def)
  show "handle_node cap rk0 vmi0 0x1000 (d, tr) = Inr (append_segment d seg_1000, tr)"
    using assms
    by (simp add: handle_node_def r b get_flags_vmi0 get_node_filename_vmi0 seg_1000_def
        append_segment_def)
  show "handle_node cap rk0 vmi0 0x2000 (d, tr) = Inr (append_segment d seg_2000, tr)"
    using assms
    by (simp add: handle_node_def r b get_flags_vmi0 get_node_filename_vmi0 seg_2000_def
        append_segment_def)
  show "handle_node cap rk0 vmi0 0x3000 (d, tr) = Inr (append_segment d seg_3000, tr)"
    using assms
    by (simp add: handle_node_def r b get_flags_vmi0 get_node_filename_vmi0 seg_3000_def
        append_segment_def)
  show "handle_node cap rk0 vmi0 0x800 (d, tr) = Inr (append_segment d seg_800, tr)"
    using assms
    by (simp add: handle_node_def r b get_flags_vmi0 get_node_filename_vmi0 seg_800_def
        append_segment_def)
  show "handle_node cap rk0 vmi0 0x3800 (d, tr) = Inr (append_segment d seg_3800, tr)"
    using assms
    by (simp add: handle_node_def r b get_flags_vmi0 get_node_filename_vmi0 seg_3800_def
        append_segment_def)
qed

lemma d0_free: "segment_count d0 < 4" "segment_count d0 < length (segments d0)" "pid d0 = 7"
  by (simp_all add: d0_def)

theorem handle_node_size_is_bytes_read_witness:
  "handle_node 4 rk0 vmi0 0x2000 (d0, []) = Inr (append_segment d0 seg_2000, []) \<and>
   append_segment d0 seg_2000 \<noteq> d0 \<and>
   (\<exists>seg base end'.
      append_segment d0 seg_2000 = append_segment d0 seg \<and>
      node_base vmi0 rk0 0x2000 = Some base \<and> node_end vmi0 rk0 0x2000 = Some end' \<and>
      buf seg = vmi_read_va vmi0 base (pid d0) (end' - base) \<and>
      unat (size_seg seg) = length (buf seg) \<and>
      size_seg seg \<le> end' - base \<and>
      (size_seg seg = end' - base) = (\<not> length (buf seg) < unat (end' - base)))"
proof -
  have h: "handle_node 4 rk0 vmi0 0x2000 (d0, []) = Inr (append_segment d0 seg_2000, [])"
    by (rule handle_node_vmi0 [OF d0_free])
  have n: "append_segment d0 seg_2000 \<noteq> d0"
    by (rule append_segment_neq)
  show ?thesis
    using h n handle_node_size_is_bytes_read [OF h n] by blast
qed

lemma readable_update_reads:
  "vmi_read_addr_va (vmi\<lparr>readable := rd\<rparr>) = vmi_read_addr_va vmi"
  "vmi_read_64_va (vmi\<lparr>readable := rd\<rparr>) = vmi_read_64_va vmi"
  "vmi_read_unicode_str_va (vmi\<lparr>readable := rd\<rparr>) = vmi_read_unicode_str_va vmi"
  "vmi_convert_str_encoding (vmi\<lparr>readable := rd\<rparr>) = vmi_convert_str_encoding vmi"
  by (simp_all add: fun_eq_iff vmi_read_addr_va_def vmi_read_64_va_def
      vmi_read_unicode_str_va_def vmi_convert_str_encoding_def)

lemma readable_update_node:
  "node_base (vmi\<lparr>readable := rd\<rparr>) = node_base vmi"
  "node_end (vmi\<lparr>readable := rd\<rparr>) = node_end vmi"
  "get_node_vadtype (vmi\<lparr>readable := rd\<rparr>) = get_node_vadtype vmi"
  "get_node_isprivate (vmi\<lparr>readable := rd\<rparr>) = get_node_isprivate vmi"
  "get_node_protection (vmi\<lparr>readable := rd\<rparr>) = get_node_protection vmi"
  "get_node_filename (vmi\<lparr>readable := rd\<rparr>) = get_node_filename vmi"
  by (simp_all add: fun_eq_iff node_base_def node_end_def get_node_vadtype_def
      get_node_isprivate_def get_node_protection_def get_node_filename_def
      readable_update_reads Let_def split: option.splits)

lemma handle_node_appends:
  assumes "node_base vmi rk node = Some base" and "node_end vmi rk node = Some end'"
    and "base \<noteq> 0" and "end' \<noteq> 0"
    and "segment_count d < cap" and "segment_count d < length (segments d)"
    and "get_node_vadtype vmi rk node = Some vt"
    and "get_node_isprivate vmi rk node = Some ip"
    and "get_node_protection vmi rk node = Some pr"
  shows "handle_node cap rk vmi node (d, tr) =
           Inr (append_segment d
                  \<lparr>base_va = base,
                   size_seg =
                     (if word_of_nat (length (vmi_read_va vmi base (pid d) (end' - base)))
                           < end' - base
                      then word_of_nat (length (vmi_read_va vmi base (pid d) (end' - base)))
                      else end' - base),
                   va_size = end' - base,
                   buf = vmi_read_va vmi base (pid d) (end' - base),
                   filename = get_node_filename vmi rk node zero_unicode_string,
                   vadtype = vt, isprivate = ip, protection = pr\<rparr>, tr)"
  using assms
  by (auto simp add: handle_node_def node_base_def node_end_def append_segment_def Let_def
      split: option.splits)

text \<open>
  C10. The segment appended by \<open>handle_node\<close> has the base address of the node and, as
  \<open>va_size\<close>, the full virtual extent \<open>end - base\<close>, whatever the read returned. What the
  read returns decides \<open>buf\<close> and \<open>size\<close> only: on a guest that differs in the readable
  bytes alone, the segment appended is the same in every other field.
\<close>

theorem handle_node_va_size_frame:
  assumes "handle_node cap rk vmi node (d, tr) = Inr (d', tr')" and "d' \<noteq> d"
  shows "\<exists>seg base end'.
           d' = append_segment d seg \<and>
           node_base vmi rk node = Some base \<and> node_end vmi rk node = Some end' \<and>
           base_va seg = base \<and> va_size seg = end' - base \<and>
           (\<forall>rd. \<exists>seg'.
              handle_node cap rk (vmi\<lparr>readable := rd\<rparr>) node (d, tr) =
                Inr (append_segment d seg', tr) \<and>
              va_size seg' = end' - base \<and>
              seg'\<lparr>size_seg := size_seg seg, buf := buf seg\<rparr> = seg)"
proof -
  from handle_node_append [OF assms] obtain base end' vt ip pr where
    nb: "node_base vmi rk node = Some base" and ne: "node_end vmi rk node = Some end'"
    and z: "base \<noteq> 0" "end' \<noteq> 0"
    and c: "segment_count d < cap" "segment_count d < length (segments d)"
    and fl: "get_node_vadtype vmi rk node = Some vt" "get_node_isprivate vmi rk node = Some ip"
      "get_node_protection vmi rk node = Some pr"
    and d': "d' = append_segment d
                  \<lparr>base_va = base,
                   size_seg =
                     (if word_of_nat (length (vmi_read_va vmi base (pid d) (end' - base)))
                           < end' - base
                      then word_of_nat (length (vmi_read_va vmi base (pid d) (end' - base)))
                      else end' - base),
                   va_size = end' - base,
                   buf = vmi_read_va vmi base (pid d) (end' - base),
                   filename = get_node_filename vmi rk node zero_unicode_string,
                   vadtype = vt, isprivate = ip, protection = pr\<rparr>"
    by blast
  have hn: "handle_node cap rk (vmi\<lparr>readable := rd\<rparr>) node (d, tr) =
           Inr (append_segment d
                  \<lparr>base_va = base,
                   size_seg =
                     (if word_of_nat (length (vmi_read_va (vmi\<lparr>readable := rd\<rparr>) base (pid d) (end' - base)))
                           < end' - base
                      then word_of_nat (length (vmi_read_va (vmi\<lparr>readable := rd\<rparr>) base (pid d) (end' - base)))
                      else end' - base),
                   va_size = end' - base,
                   buf = vmi_read_va (vmi\<lparr>readable := rd\<rparr>) base (pid d) (end' - base),
                   filename = get_node_filename vmi rk node zero_unicode_string,
                   vadtype = vt, isprivate = ip, protection = pr\<rparr>, tr)" for rd
    using handle_node_appends [of "vmi\<lparr>readable := rd\<rparr>" rk node base end' d cap vt ip pr tr]
      nb ne z c fl
    by (simp add: readable_update_node)
  have other: "\<exists>seg'. handle_node cap rk (vmi\<lparr>readable := rd\<rparr>) node (d, tr) =
                  Inr (append_segment d seg', tr) \<and>
                va_size seg' = end' - base \<and>
                seg'\<lparr>size_seg := sz, buf := bf\<rparr> =
                  \<lparr>base_va = base, size_seg = sz, va_size = end' - base, buf = bf,
                   filename = get_node_filename vmi rk node zero_unicode_string,
                   vadtype = vt, isprivate = ip, protection = pr\<rparr>" for rd sz bf
    by (rule exI, intro conjI, rule hn) simp_all
  show ?thesis
    apply (rule exI, rule exI [of _ base], rule exI [of _ end'])
    apply (intro conjI allI)
         apply (rule d')
        apply (rule nb)
       apply (rule ne)
      apply simp
     apply simp
    apply (simp only: vad_seg_t.simps other)
    done
qed

theorem handle_node_va_size_frame_witness:
  "handle_node 4 rk0 vmi0 0x2000 (d0, []) = Inr (append_segment d0 seg_2000, []) \<and>
   append_segment d0 seg_2000 \<noteq> d0 \<and>
   va_size seg_2000 = 0x2000 \<and> size_seg seg_2000 = 100 \<and>
   (\<exists>seg base end'.
      append_segment d0 seg_2000 = append_segment d0 seg \<and>
      node_base vmi0 rk0 0x2000 = Some base \<and> node_end vmi0 rk0 0x2000 = Some end' \<and>
      base_va seg = base \<and> va_size seg = end' - base \<and>
      (\<forall>rd. \<exists>seg'.
         handle_node 4 rk0 (vmi0\<lparr>readable := rd\<rparr>) 0x2000 (d0, []) =
           Inr (append_segment d0 seg', []) \<and>
         va_size seg' = end' - base \<and>
         seg'\<lparr>size_seg := size_seg seg, buf := buf seg\<rparr> = seg))"
proof -
  have h: "handle_node 4 rk0 vmi0 0x2000 (d0, []) = Inr (append_segment d0 seg_2000, [])"
    by (rule handle_node_vmi0 [OF d0_free])
  have n: "append_segment d0 seg_2000 \<noteq> d0"
    by (rule append_segment_neq)
  have v: "va_size seg_2000 = 0x2000 \<and> size_seg seg_2000 = 100"
    by (simp add: seg_2000_def)
  show ?thesis
    using h n v handle_node_va_size_frame [OF h n] by blast
qed

subsection \<open>The walk\<close>

lemma visits_append: "visits (xs @ ys) = visits xs @ visits ys"
  by (induction xs rule: visits.induct) auto

lemma visits_trav: "visits (trav vmi rk t) = inorder t"
  by (induction t) (auto simp: visits_append)

lemma visits_map_Visit: "visits (map Visit ns) = ns"
  by (induction ns) auto

lemma run_steps_append:
  "run_steps vmi func (xs @ ys) st =
     (case run_steps vmi func xs st of Inl f \<Rightarrow> Inl f | Inr st1 \<Rightarrow> run_steps vmi func ys st1)"
  by (induction vmi func xs st rule: run_steps.induct) (auto split: sum.splits)

lemma vad_shape_zero: "vad_shape vmi rk 0 t \<longleftrightarrow> t = Leaf"
  by (cases t) auto

text \<open>
  On a guest whose nodes form a finite tree the walk returns, and it is the in-order run
  of the visitor over the tree.
\<close>

lemma vad_iterator_walk:
  "vad_shape vmi rk a t \<Longrightarrow> a \<noteq> 0 \<Longrightarrow>
   vad_iterator vmi rk a func st = Some (run_steps vmi func (trav vmi rk t) st)"
proof (induction t arbitrary: a st)
  case Leaf
  then show ?case by simp
next
  case (Node l n r)
  obtain d tr where st: "st = (d, tr)"
    by (cases st)
  let ?lp = "child_ptr vmi (a + mmvad_leftchild rk)"
  let ?rp = "child_ptr vmi (a + mmvad_rightchild rk)"
  from Node.prems have na: "n = a" and sl: "vad_shape vmi rk ?lp l" and sr: "vad_shape vmi rk ?rp r"
    by auto
  have L: "?lp \<noteq> 0 \<Longrightarrow>
      vad_iterator vmi rk ?lp func s = Some (run_steps vmi func (trav vmi rk l) s)" for s
    using Node.IH(1) [OF sl] by simp
  have R: "?rp \<noteq> 0 \<Longrightarrow>
      vad_iterator vmi rk ?rp func s = Some (run_steps vmi func (trav vmi rk r) s)" for s
    using Node.IH(2) [OF sr] by simp
  have L0: "?lp = 0 \<Longrightarrow> l = Leaf"
    using sl by (simp add: vad_shape_zero)
  have R0: "?rp = 0 \<Longrightarrow> r = Leaf"
    using sr by (simp add: vad_shape_zero)
  show ?case
    apply (subst vad_iterator.simps)
    using L R L0 R0
    apply (auto simp add: st na child_ptr_def read_or_zero_def run_steps_append
        split: option.splits sum.splits)
    done
qed


subsection \<open>The bound on the segment count\<close>







subsection \<open>The order of the segments\<close>

lemma sorted_wrt_subseq: "subseq xs ys \<Longrightarrow> sorted_wrt P ys \<Longrightarrow> sorted_wrt P xs"
proof (induction rule: list_emb.induct)
  case (list_emb_Cons xs ys y)
  then show ?case by simp
next
  case (list_emb_Cons2 x y xs ys)
  then show ?case by (auto elim: list_emb_set)
qed simp

lemma grown_refl: "grown d d []"
  by (simp add: grown_def)

lemma grown_step:
  assumes "grown d d1 segs" and "d2 = append_segment d1 seg"
    and "segment_count d1 < length (segments d1)"
  shows "grown d d2 (segs @ [seg])"
  using assms by (auto simp add: grown_def append_segment_def nth_append nth_list_update)

lemma grown_new_segments: "grown d d' segs \<Longrightarrow> new_segments d d' = map Some segs"
  apply (cases "segs = []")
   apply (simp add: grown_def new_segments_def)
  apply (rule nth_equalityI)
   apply (auto simp add: grown_def new_segments_def)
  done

lemma handle_node_key:
  assumes "handle_node cap rk vmi node (d, tr) = Inr (d', tr')" and "d' \<noteq> d"
  shows "\<exists>seg. d' = append_segment d seg \<and> base_va seg = node_key vmi rk node \<and>
               segment_count d < length (segments d)"
  using handle_node_append [OF assms]
  by (auto simp add: node_key_def node_base_def read_or_zero_def)

lemma run_handle_node_grown:
  "run_steps vmi (handle_node cap rk) steps (d, tr) = Inr (d', tr') \<Longrightarrow>
   \<exists>segs. grown d d' segs \<and>
          subseq (map base_va segs) (map (node_key vmi rk) (visits steps))"
proof (induction steps arbitrary: d' tr' rule: rev_induct)
  case Nil
  then show ?case
    by (auto simp: grown_refl intro!: exI [of _ "[]"])
next
  case (snoc s steps)
  from snoc.prems obtain d1 tr1 where
    r1: "run_steps vmi (handle_node cap rk) steps (d, tr) = Inr (d1, tr1)"
    and r2: "run_steps vmi (handle_node cap rk) [s] (d1, tr1) = Inr (d', tr')"
    by (auto simp add: run_steps_append split: sum.splits)
  from snoc.IH [OF r1] obtain segs where g: "grown d d1 segs"
    and s: "subseq (map base_va segs) (map (node_key vmi rk) (visits steps))"
    by blast
  show ?case
  proof (cases s)
    case (Warn m)
    with r2 have "d' = d1"
      by simp
    with g s show ?thesis
      by (auto simp add: visits_append Warn)
  next
    case (Visit n)
    with r2 have h: "handle_node cap rk vmi n (d1, tr1) = Inr (d', tr')"
      by (simp split: sum.splits)
    show ?thesis
    proof (cases "d' = d1")
      case True
      with g s show ?thesis
        by (auto simp add: visits_append Visit intro: list_emb_prefix)
    next
      case False
      from handle_node_key [OF h False] obtain seg where
        d': "d' = append_segment d1 seg"
        and b: "base_va seg = node_key vmi rk n"
        and l: "segment_count d1 < length (segments d1)"
        by blast
      have "grown d d' (segs @ [seg])"
        by (rule grown_step [OF g d' l])
      moreover have "subseq (map base_va (segs @ [seg]))
                       (map (node_key vmi rk) (visits (steps @ [s])))"
        using s b by (simp add: visits_append Visit list_emb_append_mono)
      ultimately show ?thesis
        by blast
    qed
  qed
qed

text \<open>
  C1. When the nodes reached from the root form a finite tree that is a search tree on the
  base addresses of its nodes, \<open>vad_iterator\<close> returns, and what it does is the in-order
  run of the visitor: the left subtree, the node, the right subtree. With \<open>handle_node\<close>
  as the visitor, the segments appended to the job are appended in strictly ascending
  order of \<open>base_va\<close>.
\<close>

theorem vad_iterator_inorder_ascending:
  assumes "vad_shape vmi rk root t" and "root \<noteq> 0"
    and "bst (map_tree (node_key vmi rk) t)"
  shows "vad_iterator vmi rk root func st = Some (run_steps vmi func (trav vmi rk t) st) \<and>
         visits (trav vmi rk t) = inorder t \<and>
         (\<exists>res. vad_iterator vmi rk root (handle_node cap rk) (d, tr) = Some res \<and>
            (\<forall>d' tr'. res = Inr (d', tr') \<longrightarrow>
               (\<exists>segs. new_segments d d' = map Some segs \<and>
                       sorted_wrt (<) (map base_va segs))))"
proof (intro conjI)
  show "vad_iterator vmi rk root func st = Some (run_steps vmi func (trav vmi rk t) st)"
    by (rule vad_iterator_walk [OF assms(1,2)])
  show "visits (trav vmi rk t) = inorder t"
    by (rule visits_trav)
  have keys: "sorted_wrt (<) (map (node_key vmi rk) (inorder t))"
    using assms(3) by (simp add: bst_iff_sorted_wrt_less inorder_map)
  let ?res = "run_steps vmi (handle_node cap rk) (trav vmi rk t) (d, tr)"
  have "\<exists>segs. new_segments d d' = map Some segs \<and> sorted_wrt (<) (map base_va segs)"
    if "?res = Inr (d', tr')" for d' tr'
  proof -
    from run_handle_node_grown [OF that] obtain segs where
      g: "grown d d' segs"
      and s: "subseq (map base_va segs) (map (node_key vmi rk) (inorder t))"
      by (auto simp add: visits_trav)
    from sorted_wrt_subseq [OF s keys] grown_new_segments [OF g] show ?thesis
      by blast
  qed
  then show "\<exists>res. vad_iterator vmi rk root (handle_node cap rk) (d, tr) = Some res \<and>
            (\<forall>d' tr'. res = Inr (d', tr') \<longrightarrow>
               (\<exists>segs. new_segments d d' = map Some segs \<and>
                       sorted_wrt (<) (map base_va segs)))"
    using vad_iterator_walk [OF assms(1,2), of "handle_node cap rk" "(d, tr)"] by blast
qed

subsection \<open>The walk on the guest with five nodes\<close>

lemma vad_shape_t0: "vad_shape vmi0 rk0 0x2000 t0"
  by (simp add: t0_def child_ptr_def vmi0_reads)

lemma bst_t0: "bst (map_tree (node_key vmi0 rk0) t0)"
  by (simp add: t0_def node_key_def vmi0_reads)

lemma trav_t0:
  "trav vmi0 rk0 t0 =
     [Visit 0x800, Visit 0x1000, Warn ''vad_iterator: Right node could not be read\<newline>'',
      Visit 0x2000, Warn ''vad_iterator: Left node could not be read\<newline>'',
      Visit 0x3000, Visit 0x3800]"
  by (simp add: t0_def vmi0_reads)

lemma run_t0:
  "run_steps vmi0 (handle_node 4 rk0) (trav vmi0 rk0 t0) (d0, []) =
     Inr (d4,
          [Fprintf_stderr ''vad_iterator: Right node could not be read\<newline>'' [],
           Fprintf_stderr ''vad_iterator: Left node could not be read\<newline>'' [],
           Fprintf_stderr ''handle_node: skipping VAD, SEG_COUNT_MAX reached.\<newline>'' []])"
proof -
  have a: "handle_node 4 rk0 vmi0 0x800 (d0, tr) = Inr (append_segment d0 seg_800, tr)" for tr
    by (rule handle_node_vmi0 [OF d0_free])
  have b: "handle_node 4 rk0 vmi0 0x1000 (append_segment d0 seg_800, tr) =
             Inr (append_segment (append_segment d0 seg_800) seg_1000, tr)" for tr
    by (rule handle_node_vmi0) (simp_all add: append_segment_def d0_def)
  have c: "handle_node 4 rk0 vmi0 0x2000 (append_segment (append_segment d0 seg_800) seg_1000, tr) =
             Inr (append_segment (append_segment (append_segment d0 seg_800) seg_1000) seg_2000, tr)"
    for tr
    by (rule handle_node_vmi0) (simp_all add: append_segment_def d0_def)
  have d: "handle_node 4 rk0 vmi0 0x3000
             (append_segment (append_segment (append_segment d0 seg_800) seg_1000) seg_2000, tr) =
             Inr (d4, tr)" for tr
    unfolding d4_def
    by (rule handle_node_vmi0) (simp_all add: append_segment_def d0_def)
  have e: "handle_node 4 rk0 vmi0 0x3800 (d4, tr) =
             Inr (d4, tr @ [Fprintf_stderr
                              ''handle_node: skipping VAD, SEG_COUNT_MAX reached.\<newline>'' []])"
    for tr
    by (rule handle_node_full) (simp add: d4_def append_segment_def d0_def)
  show ?thesis
    by (simp add: trav_t0 a b c d e)
qed

lemma new_segments_d4:
  "new_segments d0 d4 = map Some [seg_800, seg_1000, seg_2000, seg_3000]"
  by (simp add: new_segments_def d4_def append_segment_def d0_def eval_nat_numeral)




theorem vad_iterator_inorder_ascending_witness:
  "vad_shape vmi0 rk0 0x2000 t0 \<and> bst (map_tree (node_key vmi0 rk0) t0) \<and>
   visits (trav vmi0 rk0 t0) = [0x800, 0x1000, 0x2000, 0x3000, 0x3800] \<and>
   vad_iterator vmi0 rk0 0x2000 (handle_node 4 rk0) (d0, []) =
     Some (Inr (d4,
       [Fprintf_stderr ''vad_iterator: Right node could not be read\<newline>'' [],
        Fprintf_stderr ''vad_iterator: Left node could not be read\<newline>'' [],
        Fprintf_stderr ''handle_node: skipping VAD, SEG_COUNT_MAX reached.\<newline>'' []])) \<and>
   new_segments d0 d4 = map Some [seg_800, seg_1000, seg_2000, seg_3000] \<and>
   (\<exists>segs. new_segments d0 d4 = map Some segs \<and> sorted_wrt (<) (map base_va segs))"
proof -
  have z: "(0x2000 :: addr_t) \<noteq> 0"
    by simp
  note t = vad_iterator_inorder_ascending [OF vad_shape_t0 z bst_t0,
      of "handle_node 4 rk0" "(d0, [])" 4 d0 "[]"]
  have v: "visits (trav vmi0 rk0 t0) = [0x800, 0x1000, 0x2000, 0x3000, 0x3800]"
    using t by (simp add: t0_def)
  have w: "vad_iterator vmi0 rk0 0x2000 (handle_node 4 rk0) (d0, []) =
     Some (Inr (d4,
       [Fprintf_stderr ''vad_iterator: Right node could not be read\<newline>'' [],
        Fprintf_stderr ''vad_iterator: Left node could not be read\<newline>'' [],
        Fprintf_stderr ''handle_node: skipping VAD, SEG_COUNT_MAX reached.\<newline>'' []]))"
    using t by (simp only: run_t0)
  have s: "\<exists>segs. new_segments d0 d4 = map Some segs \<and> sorted_wrt (<) (map base_va segs)"
    using t w by auto
  show ?thesis
    using vad_shape_t0 bst_t0 v w s new_segments_d4 by blast
qed

text \<open>
  C7. When the left child pointer of a node cannot be read, \<open>vad_iterator\<close> prints a line
  and goes on without a left subtree: it visits the node and then walks the whole right
  subtree. When the right child pointer cannot be read, it has walked the left subtree
  and visited the node, prints a line and returns without a right subtree. In both cases
  the walk of the node returns, so the walk of the tree above it goes on.
\<close>

theorem vad_iterator_unreadable_child:
  assumes "vad_shape vmi rk node (Node l node r)"
  shows "(vmi_read_addr_va vmi (node + mmvad_leftchild rk) 0 = None \<longrightarrow>
            l = Leaf \<and>
            vad_iterator vmi rk node func (d, tr) =
              Some (run_steps vmi func
                      (Visit node #
                       (if vmi_read_addr_va vmi (node + mmvad_rightchild rk) 0 = None
                        then [Warn ''vad_iterator: Right node could not be read\<newline>'']
                        else []) @
                       trav vmi rk r)
                      (d, tr @ [Fprintf_stderr
                                  ''vad_iterator: Left node could not be read\<newline>'' []]))) \<and>
         (vmi_read_addr_va vmi (node + mmvad_rightchild rk) 0 = None \<longrightarrow>
            r = Leaf \<and>
            vad_iterator vmi rk node func (d, tr) =
              Some (run_steps vmi func
                      ((if vmi_read_addr_va vmi (node + mmvad_leftchild rk) 0 = None
                        then [Warn ''vad_iterator: Left node could not be read\<newline>'']
                        else []) @
                       trav vmi rk l @
                       [Visit node,
                        Warn ''vad_iterator: Right node could not be read\<newline>''])
                      (d, tr))) \<and>
         visits (trav vmi rk l) = inorder l \<and> visits (trav vmi rk r) = inorder r"
proof -
  from assms have nz: "node \<noteq> 0"
    and sl: "vad_shape vmi rk (child_ptr vmi (node + mmvad_leftchild rk)) l"
    and sr: "vad_shape vmi rk (child_ptr vmi (node + mmvad_rightchild rk)) r"
    by simp_all
  note w = vad_iterator_walk [OF assms nz, of func "(d, tr)"]
  have l: "l = Leaf" if "vmi_read_addr_va vmi (node + mmvad_leftchild rk) 0 = None"
    using sl that by (simp add: child_ptr_def read_or_zero_def vad_shape_zero)
  have r: "r = Leaf" if "vmi_read_addr_va vmi (node + mmvad_rightchild rk) 0 = None"
    using sr that by (simp add: child_ptr_def read_or_zero_def vad_shape_zero)
  show ?thesis
    using w l r by (auto simp add: visits_trav)
qed

theorem vad_iterator_unreadable_child_witness:
  "vad_shape vmi0 rk0 0x3000 (Node Leaf 0x3000 (Node Leaf 0x3800 Leaf)) \<and>
   vmi_read_addr_va vmi0 (0x3000 + mmvad_leftchild rk0) 0 = None \<and>
   vad_iterator vmi0 rk0 0x3000 (handle_node 4 rk0) (d0, []) =
     Some (Inr (append_segment (append_segment d0 seg_3000) seg_3800,
                [Fprintf_stderr ''vad_iterator: Left node could not be read\<newline>'' []])) \<and>
   vad_shape vmi0 rk0 0x1000 (Node (Node Leaf 0x800 Leaf) 0x1000 Leaf) \<and>
   vmi_read_addr_va vmi0 (0x1000 + mmvad_rightchild rk0) 0 = None \<and>
   vad_iterator vmi0 rk0 0x1000 (handle_node 4 rk0) (d0, []) =
     Some (Inr (append_segment (append_segment d0 seg_800) seg_1000,
                [Fprintf_stderr ''vad_iterator: Right node could not be read\<newline>'' []]))"
proof -
  have s3: "vad_shape vmi0 rk0 0x3000 (Node Leaf 0x3000 (Node Leaf 0x3800 Leaf))"
    by (simp add: child_ptr_def vmi0_reads)
  have s1: "vad_shape vmi0 rk0 0x1000 (Node (Node Leaf 0x800 Leaf) 0x1000 Leaf)"
    by (simp add: child_ptr_def vmi0_reads)
  have u3: "vmi_read_addr_va vmi0 (0x3000 + mmvad_leftchild rk0) 0 = None"
    by (simp add: vmi0_reads)
  have u1: "vmi_read_addr_va vmi0 (0x1000 + mmvad_rightchild rk0) 0 = None"
    by (simp add: vmi0_reads)
  have r3: "vmi_read_addr_va vmi0 (0x3000 + mmvad_rightchild rk0) 0 = Some 0x3800"
    "vmi_read_addr_va vmi0 (0x3800 + mmvad_leftchild rk0) 0 = Some 0"
    "vmi_read_addr_va vmi0 (0x3800 + mmvad_rightchild rk0) 0 = Some 0"
    "vmi_read_addr_va vmi0 (0x1000 + mmvad_leftchild rk0) 0 = Some 0x800"
    "vmi_read_addr_va vmi0 (0x800 + mmvad_leftchild rk0) 0 = Some 0"
    "vmi_read_addr_va vmi0 (0x800 + mmvad_rightchild rk0) 0 = Some 0"
    by (simp_all add: vmi0_reads)
  have a: "handle_node 4 rk0 vmi0 0x3000 (d0, tr) = Inr (append_segment d0 seg_3000, tr)" for tr
    by (rule handle_node_vmi0 [OF d0_free])
  have b: "handle_node 4 rk0 vmi0 0x3800 (append_segment d0 seg_3000, tr) =
             Inr (append_segment (append_segment d0 seg_3000) seg_3800, tr)" for tr
    by (rule handle_node_vmi0) (simp_all add: append_segment_def d0_def)
  have c: "handle_node 4 rk0 vmi0 0x800 (d0, tr) = Inr (append_segment d0 seg_800, tr)" for tr
    by (rule handle_node_vmi0 [OF d0_free])
  have e: "handle_node 4 rk0 vmi0 0x1000 (append_segment d0 seg_800, tr) =
             Inr (append_segment (append_segment d0 seg_800) seg_1000, tr)" for tr
    by (rule handle_node_vmi0) (simp_all add: append_segment_def d0_def)
  have w3: "vad_iterator vmi0 rk0 0x3000 (handle_node 4 rk0) (d0, []) =
     Some (Inr (append_segment (append_segment d0 seg_3000) seg_3800,
                [Fprintf_stderr ''vad_iterator: Left node could not be read\<newline>'' []]))"
    using vad_iterator_unreadable_child [OF s3, of "handle_node 4 rk0" d0 "[]"] u3
    by (simp add: r3 a b)
  have w1: "vad_iterator vmi0 rk0 0x1000 (handle_node 4 rk0) (d0, []) =
     Some (Inr (append_segment (append_segment d0 seg_800) seg_1000,
                [Fprintf_stderr ''vad_iterator: Right node could not be read\<newline>'' []]))"
    using vad_iterator_unreadable_child [OF s1, of "handle_node 4 rk0" d0 "[]"] u1
    by (simp add: r3 c e)
  show ?thesis
    using s3 s1 u3 u1 w3 w1 by blast
qed

subsection \<open>The single-segment dump\<close>

text \<open>
  C5. When the faulting segment has a size that is not zero and the buffer is allocated,
  \<open>process_layer\<close> queues the dump whatever the read returns: the buffer holds the bytes
  read and the length given to the queue is their number, which a short read makes smaller
  than the size of the segment.
\<close>

theorem process_layer_queues_bytes_read:
  assumes "vma = current_find_segment vmi event (ev_gla event)"
    and "vma_size vma \<noteq> 0" and "malloc_ok (vma_size vma)"
  shows "\<exists>buffer dump_size before after.
           process_layer vmi malloc_ok event p page_cat tr =
             tr @ [before,
                   Add_to_dump_queue buffer dump_size p (ev_rip event) (vma_base_va vma),
                   after] \<and>
           buffer = vmi_read_va vmi (vma_base_va vma) p (vma_size vma) \<and>
           unat dump_size = length buffer \<and>
           length buffer \<le> unat (vma_size vma)"
  using assms
  by (simp add: process_layer_def Let_def unat_read_size length_vmi_read_va)

theorem process_layer_queues_bytes_read_witness:
  "vma_size (current_find_segment vmi0 ev0 (ev_gla ev0)) = 0x2000 \<and>
   length (vmi_read_va vmi0 0x20000 7 0x2000) = 100 \<and>
   (\<exists>before after.
      process_layer vmi0 (\<lambda>n. True) ev0 7 () [] =
        [before, Add_to_dump_queue (replicate 100 0x90) 100 7 0x401000 0x20000, after])"
proof -
  have v: "current_find_segment vmi0 ev0 (ev_gla ev0) = \<lparr>vma_base_va = 0x20000, vma_size = 0x2000\<rparr>"
    by (simp add: vmi0_def)
  have b: "vmi_read_va vmi0 0x20000 7 0x2000 = replicate 100 0x90"
    by (simp add: vmi_read_va_def vmi0_def)
  have e: "ev_rip ev0 = 0x401000"
    by (simp add: ev0_def)
  from process_layer_queues_bytes_read
    [of "\<lparr>vma_base_va = 0x20000, vma_size = 0x2000\<rparr>" vmi0 ev0 "\<lambda>n. True" 7 "()" "[]"]
  obtain buffer dump_size before after where
    p: "process_layer vmi0 (\<lambda>n. True) ev0 7 () [] =
          [before, Add_to_dump_queue buffer dump_size 7 0x401000 0x20000, after]"
    and bf: "buffer = replicate 100 0x90" and n: "unat dump_size = 100"
    using v b e by auto
  from n have "dump_size = 100"
    by (simp add: word_eq_iff_unsigned [where ?'a = nat])
  then show ?thesis
    using p bf v b by auto
qed

subsection \<open>Sequence numbers\<close>

lemma fst_volatility_callback_vaddump:
  "fst (volatility_callback_vaddump h event p page_cat st) = fst st + 1"
  by (simp add: volatility_callback_vaddump_def Let_def split: prod.splits)

lemma dump_callbacks_snoc:
  "dump_callbacks h (evs @ [(event, p)]) st =
     volatility_callback_vaddump h event p () (dump_callbacks h evs st)"
  by (induction h evs st rule: dump_callbacks.induct) simp_all

lemma fst_dump_callbacks:
  "fst (dump_callbacks h evs st) = fst st + word_of_nat (length evs)"
  by (induction h evs st rule: dump_callbacks.induct)
    (simp_all add: fst_volatility_callback_vaddump)

lemma sint_dump_count: "i < 2 ^ 31 \<Longrightarrow> sint (word_of_nat i :: 32 word) = int i"
proof -
  assume "i < 2 ^ 31"
  then have "int i < 2 ^ 31"
    by (metis of_nat_less_iff of_nat_numeral of_nat_power)
  then have "signed_take_bit 31 (int i) = int i"
    by (intro signed_take_bit_int_eq_self) simp_all
  then show ?thesis
    by (simp add: signed_of_nat)
qed

text \<open>
  C6. The counter is 0 when the program starts. The invocation number \<open>i\<close> of the callback
  in a run, counted from 0, finds the counter at \<open>i\<close>, gives this value to the three
  helpers that build the names of its outputs, and leaves the counter one higher. So the
  sequence numbers of the dumps of a run are 0, 1, 2, ... in trigger order. (The counter is
  a C \<open>int\<close>: the statement is for the first \<open>2^31\<close> dumps of a run.)
\<close>

theorem dump_sequence_numbers:
  assumes "length evs \<le> 2 ^ 31" and "i < length evs"
  shows "sint (fst (dump_callbacks h (take i evs) (dump_count_init, tr))) = int i \<and>
         dump_callbacks h (take (Suc i) evs) (dump_count_init, tr) =
           (case (dump_callbacks h (take i evs) (dump_count_init, tr), evs ! i) of
              ((dump_count, tr1), (event, p)) \<Rightarrow>
                (dump_count + 1,
                 add_rip_to_json h p dump_count (ev_rip event)
                   (volatility_vadinfo h p [] dump_count
                      (volatility_vaddump h p [] dump_count tr1))))"
proof
  have "i < 2 ^ 31"
    using assms by simp
  then show "sint (fst (dump_callbacks h (take i evs) (dump_count_init, tr))) = int i"
    using assms(2) by (simp add: fst_dump_callbacks dump_count_init_def sint_dump_count)
  obtain event p where e: "evs ! i = (event, p)"
    by (cases "evs ! i")
  have "take (Suc i) evs = take i evs @ [(event, p)]"
    using assms(2) e by (simp add: take_Suc_conv_app_nth)
  then show "dump_callbacks h (take (Suc i) evs) (dump_count_init, tr) =
           (case (dump_callbacks h (take i evs) (dump_count_init, tr), evs ! i) of
              ((dump_count, tr1), (event, p)) \<Rightarrow>
                (dump_count + 1,
                 add_rip_to_json h p dump_count (ev_rip event)
                   (volatility_vadinfo h p [] dump_count
                      (volatility_vaddump h p [] dump_count tr1))))"
    by (simp add: e dump_callbacks_snoc volatility_callback_vaddump_def Let_def
        split: prod.splits)
qed

lemma fmt_04d_small: "fmt_04d 0 = ''0000''" "fmt_04d 1 = ''0001''"
  by (simp_all add: fmt_04d_def numeral_3_eq_3)

lemma fmt_ld_7: "fmt_ld 7 = ''7''"
  by (simp add: fmt_ld_def)

lemma fmt_p_rip: "fmt_p 0x401000 = ''0x401000''"
  by (simp add: fmt_p_def)

lemma callbacks_h0:
  "dump_callbacks h0 [(ev0, 7)] (dump_count_init, []) =
     (1, [Mkdir ''/out/0000'',
          Queue_and_wait_for_shell_cmd
            ''volatility -l vmi://win7 --profile=Win7SP1x64 vaddump -D /out/0000 2>&1 -p 7''
            ''/out/vaddump_output.0000.7'',
          Queue_and_wait_for_shell_cmd
            ''volatility -l vmi://win7 --profile=Win7SP1x64  vadinfo --output=json --output-file=/out/vadinfo.0000.7.json 2>&1 -p 7''
            ''/out/vadinfo_output.0000.7'',
          Read_json_file ''/out/vadinfo.0000.7.json'',
          Write_file ''/out/vadinfo.0000.7.json'' [(''pid'', ''7''), (''rip'', ''0x401000'')]])"
  by (simp add: dump_count_init_def volatility_callback_vaddump_def volatility_vaddump_def
      volatility_vadinfo_def add_rip_to_json_def json_object_set_string_member_def
      h0_def ev0_def snprintf_def PATH_MAX_def fmt_04d_small fmt_ld_7 fmt_p_rip Let_def)

theorem dump_sequence_numbers_witness:
  "sint (fst (dump_callbacks h0 (take 1 [(ev0, 7), (ev0, 7)]) (dump_count_init, []))) = 1 \<and>
   dump_callbacks h0 (take (Suc 1) [(ev0, 7), (ev0, 7)]) (dump_count_init, []) =
     (2, [Mkdir ''/out/0000'',
          Queue_and_wait_for_shell_cmd
            ''volatility -l vmi://win7 --profile=Win7SP1x64 vaddump -D /out/0000 2>&1 -p 7''
            ''/out/vaddump_output.0000.7'',
          Queue_and_wait_for_shell_cmd
            ''volatility -l vmi://win7 --profile=Win7SP1x64  vadinfo --output=json --output-file=/out/vadinfo.0000.7.json 2>&1 -p 7''
            ''/out/vadinfo_output.0000.7'',
          Read_json_file ''/out/vadinfo.0000.7.json'',
          Write_file ''/out/vadinfo.0000.7.json'' [(''pid'', ''7''), (''rip'', ''0x401000'')],
          Mkdir ''/out/0001'',
          Queue_and_wait_for_shell_cmd
            ''volatility -l vmi://win7 --profile=Win7SP1x64 vaddump -D /out/0001 2>&1 -p 7''
            ''/out/vaddump_output.0001.7'',
          Queue_and_wait_for_shell_cmd
            ''volatility -l vmi://win7 --profile=Win7SP1x64  vadinfo --output=json --output-file=/out/vadinfo.0001.7.json 2>&1 -p 7''
            ''/out/vadinfo_output.0001.7'',
          Read_json_file ''/out/vadinfo.0001.7.json''])"
proof -
  have l: "length [(ev0, 7 :: vmi_pid_t), (ev0, 7)] \<le> 2 ^ 31" and i: "1 < length [(ev0, 7 :: vmi_pid_t), (ev0, 7)]"
    by simp_all
  note t = dump_sequence_numbers [OF l i, of h0 "[]"]
  have one: "take 1 [(ev0, 7 :: vmi_pid_t), (ev0, 7)] = [(ev0, 7)]"
    by simp
  show ?thesis
    using t unfolding one callbacks_h0
    by (simp add: volatility_vaddump_def
      volatility_vadinfo_def add_rip_to_json_def json_object_set_string_member_def
      h0_def ev0_def snprintf_def PATH_MAX_def fmt_04d_small fmt_ld_7 fmt_p_rip Let_def)
qed

end
